theory Spec2Isabelle
  imports Main "HOL-Library.Sublist"
begin

section \<open>Strings\<close>

text \<open>
  A Python \<open>str\<close> is modelled as a \<open>string\<close> whose characters are the code points
  below 256. \<open>isspace\<close> lists the code points in that range that
  \<open>str.strip()\<close> removes.
\<close>

definition isspace :: "char \<Rightarrow> bool" where
  "isspace c = (of_char c \<in> {9, 10, 11, 12, 13, 28, 29, 30, 31, 32, 133, 160 :: nat})"

definition strip :: "string \<Rightarrow> string" where
  "strip s = rev (dropWhile isspace (rev (dropWhile isspace s)))"

text \<open>
  The store's \<open>lower()\<close>: the default engine (\<open>sqlite+aiosqlite\<close>, database.py) folds
  the ASCII letters only.
\<close>

definition lower_char :: "char \<Rightarrow> char" where
  "lower_char c =
     (let n = (of_char c :: nat) in if 65 \<le> n \<and> n \<le> 90 then char_of (n + 32) else c)"

definition lower :: "string \<Rightarrow> string" where
  "lower s = map lower_char s"

text \<open>
  SQL \<open>LIKE\<close>, pattern first: \<open>%\<close> stands for any run of characters (the empty one
  too), \<open>_\<close> for exactly one character, every other character for itself. The
  source sets no escape character.
\<close>

fun like :: "string \<Rightarrow> string \<Rightarrow> bool" where
  "like [] s = (s = [])"
| "like (p # ps) [] = (p = CHR ''%'' \<and> like ps [])"
| "like (p # ps) (c # cs) =
     (if p = CHR ''%'' then like ps (c # cs) \<or> like (p # ps) cs
      else (p = CHR ''_'' \<or> p = c) \<and> like ps cs)"

text \<open>
  \<open>column.ilike(pattern)\<close>: SQLAlchemy renders it as
  \<open>lower(column) LIKE lower(pattern)\<close>.
\<close>

definition ilike :: "string \<Rightarrow> string \<Rightarrow> bool" where
  "ilike col pattern = like (lower pattern) (lower col)"

text \<open>The f-string \<open>f"%{query}%"\<close>.\<close>

definition search_term :: "string \<Rightarrow> string" where
  "search_term query = CHR ''%'' # query @ [CHR ''%'']"

text \<open>A column that may be \<open>NULL\<close>: \<open>NULL ILIKE p\<close> is not true.\<close>

definition ilike_nullable :: "string option \<Rightarrow> string \<Rightarrow> bool" where
  "ilike_nullable col pattern = (case col of None \<Rightarrow> False | Some s \<Rightarrow> ilike s pattern)"





section \<open>Errors\<close>

text \<open>
  The \<open>detail\<close> of an \<open>HTTPException\<close>, one constructor per message of the source:
  \<^item> \<open>Query_too_short\<close>: "Search query must be at least 2 characters long."
  \<^item> \<open>Collection_not_found\<close>: "Collection not found or not owned by user"
  \<^item> \<open>Task_into_notes_only\<close>: "Cannot add a Task to a Collection of type 'notes-only'."
  \<^item> \<open>Note_into_tasks_only\<close>: "Cannot add a Note to a Collection of type 'tasks-only'."
  \<^item> \<open>Tags_not_found missing\<close>: "Tags not found or not owned by user: [missing]"
\<close>

datatype detail =
    Query_too_short
  | Collection_not_found
  | Task_into_notes_only
  | Note_into_tasks_only
  | Tags_not_found "int list"

text \<open>
  \<open>HTTPException status_code detail\<close> is raised by the source itself;
  \<open>InvalidRequestError\<close> is what the session raises when \<open>refresh\<close> is given an
  instance that is not persistent in it or whose row is gone;
  \<open>MultipleResultsFound\<close> is what \<open>scalar_one_or_none\<close> raises on more than one row.
\<close>

datatype error =
    HTTPException nat detail
  | InvalidRequestError
  | MultipleResultsFound

text \<open>Sequencing of steps that may raise: the first exception ends the run.\<close>

definition and_then :: "error + 'a \<Rightarrow> ('a \<Rightarrow> error + 'b) \<Rightarrow> error + 'b" where
  "and_then r f = (case r of Inl e \<Rightarrow> Inl e | Inr x \<Rightarrow> f x)"


section \<open>Rows and the store\<close>

text \<open>Timestamps are integers (a count of clock ticks).\<close>

record Tag =
  tag_id :: int
  tag_user_id :: int
  tag_title :: string
  tag_created_at :: int
  tag_updated_at :: int

text \<open>
  \<open>TaskStatus\<close> and \<open>TaskPriority\<close> are kept as the strings the store holds for them.
\<close>

record Task =
  task_id :: int
  task_user_id :: int
  task_collection_id :: "int option"
  task_title :: string
  task_description :: "string option"
  task_status :: string
  task_priority :: string
  task_created_at :: int
  task_updated_at :: int

record Note =
  note_id :: int
  note_user_id :: int
  note_collection_id :: "int option"
  note_title :: string
  note_description :: "string option"
  note_created_at :: int
  note_updated_at :: int

datatype CollectionType = MIXED | TASKS_ONLY | NOTES_ONLY

record Collection =
  collection_id :: int
  collection_user_id :: int
  collection_title :: string
  collection_description :: "string option"
  collection_type :: CollectionType
  collection_created_at :: int
  collection_updated_at :: int

text \<open>
  The store: each table is the list of its rows in the order a scan yields them; an
  association table holds pairs \<open>(tag_id, entity_id)\<close>. \<open>clock\<close> is what
  \<open>func.now()\<close> returns.
\<close>

record db =
  tags_table :: "Tag list"
  tasks_table :: "Task list"
  notes_table :: "Note list"
  collections_table :: "Collection list"
  tag_task_association :: "(int \<times> int) list"
  tag_note_association :: "(int \<times> int) list"
  tag_collection_association :: "(int \<times> int) list"
  clock :: int

text \<open>
  The lifecycle states that \<open>inspect(obj)\<close> reports for a mapped object, and a mapped
  object itself: its column attributes, its state, and its \<open>tags\<close> collection as
  it stands in memory.
\<close>

datatype instance_state = Transient | Pending | Persistent | Deleted | Detached

record 'r mapped =
  inst_columns :: 'r
  inst_state :: instance_state
  inst_tags :: "Tag list"


section \<open>Query primitives\<close>

text \<open>
  \<open>ORDER BY key DESC\<close>. SQL fixes the order of rows with different keys only; rows
  with equal keys stay in the order of the scan (a stable sort).
\<close>

definition order_by_desc :: "('r \<Rightarrow> int) \<Rightarrow> 'r list \<Rightarrow> 'r list" where
  "order_by_desc key rows = sort_key (\<lambda>r. - key r) rows"

text \<open>
  \<open>OFFSET\<close> and \<open>LIMIT\<close>, applied only when the argument is not \<open>None\<close>. On the
  default engine a negative offset skips nothing and a negative limit does not limit.
\<close>

definition offset :: "int option \<Rightarrow> 'r list \<Rightarrow> 'r list" where
  "offset skip rows = (case skip of None \<Rightarrow> rows | Some k \<Rightarrow> drop (nat k) rows)"

definition limit :: "int option \<Rightarrow> 'r list \<Rightarrow> 'r list" where
  "limit lim rows =
     (case lim of None \<Rightarrow> rows | Some k \<Rightarrow> if k < 0 then rows else take (nat k) rows)"

text \<open>
  The tags linked to entity \<open>eid\<close> in an association table: what
  \<open>selectinload(...tags)\<close> and \<open>refresh(obj, attribute_names=["tags"])\<close> put into
  the object's \<open>tags\<close>.
\<close>

definition linked_tags :: "Tag list \<Rightarrow> (int \<times> int) list \<Rightarrow> int \<Rightarrow> Tag list" where
  "linked_tags tbl assoc eid = [t \<leftarrow> tbl. (tag_id t, eid) \<in> set assoc]"

definition loaded :: "'r \<Rightarrow> Tag list \<Rightarrow> 'r mapped" where
  "loaded r ts = \<lparr>inst_columns = r, inst_state = Persistent, inst_tags = ts\<rparr>"


section \<open>Repositories: search\<close>

text \<open>Python truthiness of an \<open>Optional[str]\<close> and of an \<open>Optional[int]\<close>.\<close>

definition truthy_str :: "string option \<Rightarrow> bool" where
  "truthy_str v = (case v of None \<Rightarrow> False | Some s \<Rightarrow> s \<noteq> [])"

definition truthy_int :: "int option \<Rightarrow> bool" where
  "truthy_int v = (case v of None \<Rightarrow> False | Some n \<Rightarrow> n \<noteq> 0)"

text \<open>TaskRepository.search\_tasks\<close>

definition search_tasks ::
  "db \<Rightarrow> int \<Rightarrow> string \<Rightarrow> string option \<Rightarrow> string option \<Rightarrow> int option
     \<Rightarrow> int option \<Rightarrow> int option \<Rightarrow> Task mapped list" where
  "search_tasks d user_id query status priority coll_id skip lim =
     (let stmt = [t \<leftarrow> tasks_table d. task_user_id t = user_id];
          stmt = (if truthy_str status then [t \<leftarrow> stmt. Some (task_status t) = status]
                  else stmt);
          stmt = (if truthy_str priority then [t \<leftarrow> stmt. Some (task_priority t) = priority]
                  else stmt);
          stmt = (if truthy_int coll_id then [t \<leftarrow> stmt. task_collection_id t = coll_id]
                  else stmt);
          stmt = (if query \<noteq> []
                  then [t \<leftarrow> stmt. ilike (task_title t) (search_term query)
                                  \<or> ilike_nullable (task_description t) (search_term query)]
                  else stmt);
          stmt = order_by_desc task_updated_at stmt;
          stmt = offset skip stmt;
          stmt = limit lim stmt
      in map (\<lambda>t. loaded t (linked_tags (tags_table d) (tag_task_association d) (task_id t)))
           stmt)"

text \<open>NoteRepository.search\_notes\<close>

definition search_notes ::
  "db \<Rightarrow> int \<Rightarrow> string \<Rightarrow> int option \<Rightarrow> int option \<Rightarrow> int option
     \<Rightarrow> Note mapped list" where
  "search_notes d user_id query coll_id skip lim =
     (let stmt = [n \<leftarrow> notes_table d. note_user_id n = user_id];
          stmt = (if coll_id \<noteq> None then [n \<leftarrow> stmt. note_collection_id n = coll_id]
                  else stmt);
          stmt = (if query \<noteq> []
                  then [n \<leftarrow> stmt. ilike (note_title n) (search_term query)
                                  \<or> ilike_nullable (note_description n) (search_term query)]
                  else stmt);
          stmt = order_by_desc note_updated_at stmt;
          stmt = offset skip stmt;
          stmt = limit lim stmt
      in map (\<lambda>n. loaded n (linked_tags (tags_table d) (tag_note_association d) (note_id n)))
           stmt)"

text \<open>CollectionRepository.search\_collections\<close>

definition search_collections ::
  "db \<Rightarrow> int \<Rightarrow> string \<Rightarrow> CollectionType option \<Rightarrow> int option \<Rightarrow> int option
     \<Rightarrow> Collection mapped list" where
  "search_collections d user_id query type_filter skip lim =
     (let stmt = [c \<leftarrow> collections_table d. collection_user_id c = user_id];
          stmt = (if type_filter \<noteq> None
                  then [c \<leftarrow> stmt. Some (collection_type c) = type_filter]
                  else stmt);
          stmt = (if query \<noteq> []
                  then [c \<leftarrow> stmt. ilike (collection_title c) (search_term query)]
                  else stmt);
          stmt = order_by_desc collection_updated_at stmt;
          stmt = offset skip stmt;
          stmt = limit lim stmt
      in map (\<lambda>c. loaded c
                (linked_tags (tags_table d) (tag_collection_association d) (collection_id c)))
           stmt)"

text \<open>TagRepository.search\_tags\<close>

definition search_tags ::
  "db \<Rightarrow> int \<Rightarrow> string \<Rightarrow> int option \<Rightarrow> int option \<Rightarrow> Tag list" where
  "search_tags d user_id query skip lim =
     (let stmt = [t \<leftarrow> tags_table d. tag_user_id t = user_id];
          stmt = (if query \<noteq> []
                  then [t \<leftarrow> stmt. ilike (tag_title t) (search_term query)]
                  else stmt);
          stmt = order_by_desc tag_updated_at stmt;
          stmt = offset skip stmt;
          stmt = limit lim stmt
      in stmt)"


section \<open>Services: search\<close>

text \<open>The guard \<open>not query or len(query.strip()) < 2\<close> that opens every search service.\<close>

definition query_rejected :: "string \<Rightarrow> bool" where
  "query_rejected query = (query = [] \<or> length (strip query) < 2)"

text \<open>TaskService.search\_user\_tasks\<close>

definition search_user_tasks ::
  "db \<Rightarrow> int \<Rightarrow> string \<Rightarrow> string option \<Rightarrow> string option \<Rightarrow> int option
     \<Rightarrow> int option \<Rightarrow> int option \<Rightarrow> error + Task mapped list" where
  "search_user_tasks d user_id query status priority coll_id skip lim =
     (if query_rejected query then Inl (HTTPException 400 Query_too_short)
      else Inr (search_tasks d user_id (strip query) status priority coll_id skip lim))"





section \<open>Global search\<close>

text \<open>
  The response objects. \<open>TaskOut\<close> and \<open>NoteOut\<close> carry the columns of the row and
  the \<open>tag_ids\<close> property of the mapped object; \<open>CollectionOut\<close> adds the two
  counters, which the mapped class does not have and which therefore take their
  default; \<open>TagOut\<close> has exactly the columns of a tag. \<open>model_validate\<close> is taken
  to accept every row of the store.
\<close>

record TaskOut =
  taskout_columns :: Task
  taskout_tag_ids :: "int list"

record NoteOut =
  noteout_columns :: Note
  noteout_tag_ids :: "int list"

record CollectionOut =
  collectionout_columns :: Collection
  collectionout_tag_ids :: "int list"
  task_count :: "int option"
  note_count :: "int option"

type_synonym TagOut = Tag

text \<open>The property \<open>tag_ids\<close> of the classes Task, Note and Collection.\<close>

definition obj_tag_ids :: "'r mapped \<Rightarrow> int list" where
  "obj_tag_ids obj = map tag_id (inst_tags obj)"

definition TaskOut_model_validate :: "Task mapped \<Rightarrow> TaskOut" where
  "TaskOut_model_validate t = \<lparr>taskout_columns = inst_columns t, taskout_tag_ids = obj_tag_ids t\<rparr>"

definition NoteOut_model_validate :: "Note mapped \<Rightarrow> NoteOut" where
  "NoteOut_model_validate n = \<lparr>noteout_columns = inst_columns n, noteout_tag_ids = obj_tag_ids n\<rparr>"

definition CollectionOut_model_validate :: "Collection mapped \<Rightarrow> CollectionOut" where
  "CollectionOut_model_validate c =
     \<lparr>collectionout_columns = inst_columns c, collectionout_tag_ids = obj_tag_ids c,
      task_count = Some 0, note_count = Some 0\<rparr>"

definition TagOut_model_validate :: "Tag \<Rightarrow> TagOut" where
  "TagOut_model_validate t = t"

text \<open>The dictionary that \<open>global_search\<close> returns.\<close>

record envelope =
  env_query :: string
  results_tasks :: "TaskOut list"
  results_notes :: "NoteOut list"
  results_collections :: "CollectionOut list"
  results_tags :: "TagOut list"
  total_count :: nat

text \<open>The Python slice \<open>xs[:k]\<close>; a negative \<open>k\<close> counts from the end.\<close>

definition slice_to :: "'a list \<Rightarrow> int \<Rightarrow> 'a list" where
  "slice_to xs k = (if k < 0 then take (nat (int (length xs) + k)) xs else take (nat k) xs)"

text \<open>
  The four services that \<open>SearchService.__init__\<close> receives, each reduced to the one
  method \<open>global_search\<close> calls. A service runs against a state \<open>'s\<close> (for the
  services of this repository, the session's store), may change it, and returns a value
  or raises.
\<close>

record 's SearchService =
  task_service_search_user_tasks ::
    "int \<Rightarrow> string \<Rightarrow> string option \<Rightarrow> string option \<Rightarrow> int option
       \<Rightarrow> int option \<Rightarrow> int option \<Rightarrow> 's \<Rightarrow> (error + Task mapped list) \<times> 's"
  note_service_search_user_notes ::
    "int \<Rightarrow> string \<Rightarrow> int option \<Rightarrow> int option \<Rightarrow> int option
       \<Rightarrow> 's \<Rightarrow> (error + Note mapped list) \<times> 's"
  collection_service_search_user_collections ::
    "int \<Rightarrow> string \<Rightarrow> CollectionType option \<Rightarrow> int option \<Rightarrow> int option
       \<Rightarrow> 's \<Rightarrow> (error + Collection mapped list) \<times> 's"
  tag_service_search_user_tags ::
    "int \<Rightarrow> string \<Rightarrow> int option \<Rightarrow> int option \<Rightarrow> 's \<Rightarrow> (error + Tag list) \<times> 's"

text \<open>
  \<open>asyncio.gather\<close> over four awaitables that have run to their result: the four
  values if none raised, otherwise no value at all and the exception of the first one
  (in the order of the arguments) that raised.
\<close>

definition gather ::
  "error + 'a \<Rightarrow> error + 'b \<Rightarrow> error + 'c \<Rightarrow> error + 'd \<Rightarrow> error + ('a \<times> 'b \<times> 'c \<times> 'd)" where
  "gather r1 r2 r3 r4 =
     (case r1 of Inl e \<Rightarrow> Inl e | Inr a \<Rightarrow>
       (case r2 of Inl e \<Rightarrow> Inl e | Inr b \<Rightarrow>
         (case r3 of Inl e \<Rightarrow> Inl e | Inr c \<Rightarrow>
           (case r4 of Inl e \<Rightarrow> Inl e | Inr d \<Rightarrow> Inr (a, b, c, d)))))"

text \<open>
  SearchService.global\_search. The four searches are run one after the other in the
  order in which they are handed to \<open>asyncio.gather\<close>.
\<close>

definition global_search ::
  "'s SearchService \<Rightarrow> int \<Rightarrow> string \<Rightarrow> int \<Rightarrow> 's \<Rightarrow> (error + envelope) \<times> 's" where
  "global_search self user_id query limit_per_type s =
     (if query_rejected query then (Inl (HTTPException 400 Query_too_short), s)
      else
        let stripped_query = strip query;
            (r1, s1) = task_service_search_user_tasks self user_id stripped_query
                         None None None None None s;
            (r2, s2) = note_service_search_user_notes self user_id stripped_query
                         None None None s1;
            (r3, s3) = collection_service_search_user_collections self user_id stripped_query
                         None None None s2;
            (r4, s4) = tag_service_search_user_tags self user_id stripped_query None None s3
        in (case gather r1 r2 r3 r4 of
              Inl e \<Rightarrow> (Inl e, s4)
            | Inr (tasks_results, notes_results, collections_results, tags_results) \<Rightarrow>
                (Inr \<lparr>env_query = stripped_query,
                      results_tasks =
                        map TaskOut_model_validate (slice_to tasks_results limit_per_type),
                      results_notes =
                        map NoteOut_model_validate (slice_to notes_results limit_per_type),
                      results_collections =
                        map CollectionOut_model_validate
                          (slice_to collections_results limit_per_type),
                      results_tags =
                        map TagOut_model_validate (slice_to tags_results limit_per_type),
                      total_count = length tasks_results + length notes_results
                        + length collections_results + length tags_results\<rparr>,
                 s4)))"



section \<open>Tag ownership and tag reconciliation\<close>

text \<open>\<open>list(dict.fromkeys(tag_ids))\<close>: duplicates removed, first occurrences kept.\<close>

definition dedupe :: "int list \<Rightarrow> int list" where
  "dedupe xs = rev (remdups (rev xs))"

text \<open>
  \_utils.\_load\_tags. \<open>len(set(ids))\<close> is the number of different identifiers and
  \<open>sorted(set(ids) - found)\<close> the ascending list of a set.
\<close>

definition load_tags :: "db \<Rightarrow> int \<Rightarrow> int list \<Rightarrow> bool \<Rightarrow> error + Tag list" where
  "load_tags d user_id tag_ids require_all =
     (let ids = dedupe tag_ids in
      if ids = [] then Inr []
      else
        let tags = [t \<leftarrow> tags_table d. tag_user_id t = user_id \<and> tag_id t \<in> set ids] in
        if require_all \<and> length tags \<noteq> card (set ids)
        then let found = tag_id ` set tags;
                 missing = sorted_list_of_set (set ids - found)
             in Inl (HTTPException 400 (Tags_not_found missing))
        else Inr tags)"

text \<open>\_utils.\_is\_new\_or\_pending\<close>

definition is_new_or_pending :: "'r mapped \<Rightarrow> bool" where
  "is_new_or_pending obj = (inst_state obj = Transient \<or> inst_state obj = Pending)"

text \<open>
  \<open>session.refresh(obj, attribute_names=["tags"])\<close>: the collection is read again
  from the association table. The session refuses an object that is not persistent in
  it, and one whose row it cannot find.
\<close>

definition refresh_tags ::
  "db \<Rightarrow> (int \<times> int) list \<Rightarrow> bool \<Rightarrow> int \<Rightarrow> 'r mapped \<Rightarrow> error + 'r mapped" where
  "refresh_tags d assoc row_exists eid obj =
     (if inst_state obj = Persistent \<and> row_exists
      then Inr (obj\<lparr>inst_tags := linked_tags (tags_table d) assoc eid\<rparr>)
      else Inl InvalidRequestError)"

text \<open>\<open>list.clear()\<close> and \<open>list.extend(ys)\<close>.\<close>

definition list_clear :: "'a list \<Rightarrow> 'a list" where
  "list_clear xs = []"

definition list_extend :: "'a list \<Rightarrow> 'a list \<Rightarrow> 'a list" where
  "list_extend xs ys = xs @ ys"

text \<open>
  What a flush leaves in an association table for entity \<open>eid\<close> whose collection
  in memory is \<open>ts\<close>: the rows of the other entities, and one row per tag of \<open>ts\<close>.
\<close>

definition write_links :: "(int \<times> int) list \<Rightarrow> int \<Rightarrow> Tag list \<Rightarrow> (int \<times> int) list" where
  "write_links assoc eid ts = [l \<leftarrow> assoc. snd l \<noteq> eid] @ map (\<lambda>t. (tag_id t, eid)) ts"

text \<open>The key the default engine gives a new row: one more than the largest in use.\<close>

definition next_id :: "int list \<Rightarrow> int" where
  "next_id ids = (if ids = [] then 1 else Max (set ids) + 1)"

text \<open>
  \<open>session.flush()\<close> as far as one mapped object is concerned. A pending object is
  inserted (the store gives it its key and its two timestamps) together with its
  links and becomes persistent; for a persistent object the links are written; an
  object in any other state is not the session's to write.
\<close>

definition flush_task :: "db \<Rightarrow> Task mapped \<Rightarrow> db \<times> Task mapped" where
  "flush_task d obj =
     (case inst_state obj of
        Pending \<Rightarrow>
          let row = (inst_columns obj)\<lparr>task_id := next_id (map task_id (tasks_table d)),
                      task_created_at := clock d, task_updated_at := clock d\<rparr>
          in (d\<lparr>tasks_table := tasks_table d @ [row],
                tag_task_association :=
                  write_links (tag_task_association d) (task_id row) (inst_tags obj)\<rparr>,
              obj\<lparr>inst_columns := row, inst_state := Persistent\<rparr>)
      | Persistent \<Rightarrow>
          (d\<lparr>tag_task_association :=
                write_links (tag_task_association d) (task_id (inst_columns obj))
                  (inst_tags obj)\<rparr>,
           obj)
      | _ \<Rightarrow> (d, obj))"

definition flush_note :: "db \<Rightarrow> Note mapped \<Rightarrow> db \<times> Note mapped" where
  "flush_note d obj =
     (case inst_state obj of
        Pending \<Rightarrow>
          let row = (inst_columns obj)\<lparr>note_id := next_id (map note_id (notes_table d)),
                      note_created_at := clock d, note_updated_at := clock d\<rparr>
          in (d\<lparr>notes_table := notes_table d @ [row],
                tag_note_association :=
                  write_links (tag_note_association d) (note_id row) (inst_tags obj)\<rparr>,
              obj\<lparr>inst_columns := row, inst_state := Persistent\<rparr>)
      | Persistent \<Rightarrow>
          (d\<lparr>tag_note_association :=
                write_links (tag_note_association d) (note_id (inst_columns obj))
                  (inst_tags obj)\<rparr>,
           obj)
      | _ \<Rightarrow> (d, obj))"

definition flush_collection :: "db \<Rightarrow> Collection mapped \<Rightarrow> db \<times> Collection mapped" where
  "flush_collection d obj =
     (case inst_state obj of
        Pending \<Rightarrow>
          let row = (inst_columns obj)
                      \<lparr>collection_id := next_id (map collection_id (collections_table d)),
                       collection_created_at := clock d, collection_updated_at := clock d\<rparr>
          in (d\<lparr>collections_table := collections_table d @ [row],
                tag_collection_association :=
                  write_links (tag_collection_association d) (collection_id row)
                    (inst_tags obj)\<rparr>,
              obj\<lparr>inst_columns := row, inst_state := Persistent\<rparr>)
      | Persistent \<Rightarrow>
          (d\<lparr>tag_collection_association :=
                write_links (tag_collection_association d) (collection_id (inst_columns obj))
                  (inst_tags obj)\<rparr>,
           obj)
      | _ \<Rightarrow> (d, obj))"

text \<open>TaskRepository.set\_task\_tags\<close>

definition set_task_tags :: "db \<Rightarrow> Task mapped \<Rightarrow> int list \<Rightarrow> error + db \<times> Task mapped" where
  "set_task_tags d task tag_ids =
     and_then (load_tags d (task_user_id (inst_columns task)) tag_ids True) (\<lambda>tags.
     and_then
       (if is_new_or_pending task then Inr (task\<lparr>inst_tags := tags\<rparr>)
        else
          and_then
            (refresh_tags d (tag_task_association d)
               (task_id (inst_columns task) \<in> task_id ` set (tasks_table d))
               (task_id (inst_columns task)) task)
            (\<lambda>task. Inr (task\<lparr>inst_tags := list_extend (list_clear (inst_tags task)) tags\<rparr>)))
       (\<lambda>task. Inr (flush_task d task)))"

text \<open>NoteRepository.set\_note\_tags\<close>

definition set_note_tags :: "db \<Rightarrow> Note mapped \<Rightarrow> int list \<Rightarrow> error + db \<times> Note mapped" where
  "set_note_tags d note tag_ids =
     and_then (load_tags d (note_user_id (inst_columns note)) tag_ids True) (\<lambda>tags.
     and_then
       (if is_new_or_pending note then Inr (note\<lparr>inst_tags := tags\<rparr>)
        else
          and_then
            (refresh_tags d (tag_note_association d)
               (note_id (inst_columns note) \<in> note_id ` set (notes_table d))
               (note_id (inst_columns note)) note)
            (\<lambda>note. Inr (note\<lparr>inst_tags := list_extend (list_clear (inst_tags note)) tags\<rparr>)))
       (\<lambda>note. Inr (flush_note d note)))"

text \<open>CollectionRepository.set\_collection\_tags\<close>

definition set_collection_tags ::
  "db \<Rightarrow> Collection mapped \<Rightarrow> int list \<Rightarrow> error + db \<times> Collection mapped" where
  "set_collection_tags d coll tag_ids =
     and_then (load_tags d (collection_user_id (inst_columns coll)) tag_ids True) (\<lambda>tags.
     and_then
       (if is_new_or_pending coll then Inr (coll\<lparr>inst_tags := tags\<rparr>)
        else
          and_then
            (refresh_tags d (tag_collection_association d)
               (collection_id (inst_columns coll) \<in> collection_id ` set (collections_table d))
               (collection_id (inst_columns coll)) coll)
            (\<lambda>coll. Inr (coll\<lparr>inst_tags := list_extend (list_clear (inst_tags coll)) tags\<rparr>)))
       (\<lambda>coll. Inr (flush_collection d coll)))"


section \<open>Services: creating a task or a note\<close>

text \<open>The request bodies \<open>TaskCreate\<close> and \<open>NoteCreate\<close>.\<close>

record TaskCreate =
  tc_title :: string
  tc_description :: "string option"
  tc_status :: string
  tc_priority :: string
  tc_collection_id :: "int option"
  tc_tag_ids :: "int list option"

record NoteCreate =
  nc_title :: string
  nc_description :: "string option"
  nc_collection_id :: "int option"
  nc_tag_ids :: "int list option"

text \<open>
  get\_collection\_by\_id\_and\_user, the same in TaskRepository and NoteRepository;
  \<open>scalar_one_or_none\<close> yields the row, \<open>None\<close>, or raises on several rows.
\<close>

definition get_collection_by_id_and_user ::
  "db \<Rightarrow> int \<Rightarrow> int \<Rightarrow> error + Collection option" where
  "get_collection_by_id_and_user d coll_id user_id =
     (case [c \<leftarrow> collections_table d. collection_id c = coll_id \<and> collection_user_id c = user_id]
      of [] \<Rightarrow> Inr None
       | [c] \<Rightarrow> Inr (Some c)
       | _ \<Rightarrow> Inl MultipleResultsFound)"

text \<open>get\_tags\_by\_ids\_and\_user, the same in both repositories.\<close>

definition get_tags_by_ids_and_user :: "db \<Rightarrow> int list \<Rightarrow> int \<Rightarrow> Tag list" where
  "get_tags_by_ids_and_user d tag_ids user_id =
     (if tag_ids = [] then []
      else [t \<leftarrow> tags_table d. tag_user_id t = user_id \<and> tag_id t \<in> set tag_ids])"

text \<open>The check of the submitted tag identifiers that both services make before writing.\<close>

definition validate_tags :: "db \<Rightarrow> int \<Rightarrow> int list option \<Rightarrow> error + unit" where
  "validate_tags d user_id tag_ids =
     (case tag_ids of
        None \<Rightarrow> Inr ()
      | Some ids \<Rightarrow>
          let found = get_tags_by_ids_and_user d ids user_id in
          if length found \<noteq> card (set ids)
          then let found_ids = tag_id ` set found;
                   missing = sorted_list_of_set (set ids - found_ids)
               in Inl (HTTPException 400 (Tags_not_found missing))
          else Inr ())"

text \<open>
  \<open>session.refresh(obj)\<close>: the column attributes are read again from the object's
  row.
\<close>

definition refresh_columns ::
  "('r \<Rightarrow> int) \<Rightarrow> 'r list \<Rightarrow> 'r mapped \<Rightarrow> error + 'r mapped" where
  "refresh_columns key tbl obj =
     (if inst_state obj = Persistent
      then (case find (\<lambda>r. key r = key (inst_columns obj)) tbl of
              None \<Rightarrow> Inl InvalidRequestError
            | Some row \<Rightarrow> Inr (obj\<lparr>inst_columns := row\<rparr>))
      else Inl InvalidRequestError)"

text \<open>
  TaskRepository.create\_task: \<open>Task(**task_data)\<close>, \<open>add\<close>, \<open>flush\<close>. The key and
  the timestamps of the new object are unset until the flush (written \<open>0\<close> here; the
  flush overwrites them). The default engine does not check foreign keys.
\<close>

definition create_task :: "db \<Rightarrow> int \<Rightarrow> TaskCreate \<Rightarrow> db \<times> Task mapped" where
  "create_task d user_id data =
     flush_task d
       \<lparr>inst_columns =
          \<lparr>task_id = 0, task_user_id = user_id, task_collection_id = tc_collection_id data,
           task_title = tc_title data, task_description = tc_description data,
           task_status = tc_status data, task_priority = tc_priority data,
           task_created_at = 0, task_updated_at = 0\<rparr>,
        inst_state = Pending, inst_tags = []\<rparr>"

text \<open>NoteRepository.create\_note\<close>

definition create_note :: "db \<Rightarrow> int \<Rightarrow> NoteCreate \<Rightarrow> db \<times> Note mapped" where
  "create_note d user_id data =
     flush_note d
       \<lparr>inst_columns =
          \<lparr>note_id = 0, note_user_id = user_id, note_collection_id = nc_collection_id data,
           note_title = nc_title data, note_description = nc_description data,
           note_created_at = 0, note_updated_at = 0\<rparr>,
        inst_state = Pending, inst_tags = []\<rparr>"

text \<open>
  TaskService.create\_task\_for\_user. The test \<open>if task_create.collection_id:\<close> is
  Python truthiness: it is false for \<open>None\<close> and for \<open>0\<close>.
\<close>

definition create_task_for_user ::
  "db \<Rightarrow> int \<Rightarrow> TaskCreate \<Rightarrow> error + db \<times> Task mapped" where
  "create_task_for_user d user_id task_create =
     and_then
       (case tc_collection_id task_create of
          None \<Rightarrow> Inr ()
        | Some cid \<Rightarrow>
            if cid = 0 then Inr ()
            else and_then (get_collection_by_id_and_user d cid user_id) (\<lambda>owned_collection.
              case owned_collection of
                None \<Rightarrow> Inl (HTTPException 404 Collection_not_found)
              | Some c \<Rightarrow>
                  if collection_type c = NOTES_ONLY
                  then Inl (HTTPException 400 Task_into_notes_only)
                  else Inr ()))
       (\<lambda>_. and_then (validate_tags d user_id (tc_tag_ids task_create))
       (\<lambda>_. case create_task d user_id task_create of (d1, new_task) \<Rightarrow>
         and_then
           (case tc_tag_ids task_create of
              None \<Rightarrow> Inr (d1, new_task)
            | Some ids \<Rightarrow> set_task_tags d1 new_task ids)
           (\<lambda>(d2, new_task).
              and_then (refresh_columns task_id (tasks_table d2) new_task) (\<lambda>new_task.
              and_then
                (refresh_tags d2 (tag_task_association d2)
                   (task_id (inst_columns new_task) \<in> task_id ` set (tasks_table d2))
                   (task_id (inst_columns new_task)) new_task)
                (\<lambda>new_task. Inr (d2, new_task))))))"

text \<open>NoteService.create\_note\_for\_user\<close>

definition create_note_for_user ::
  "db \<Rightarrow> int \<Rightarrow> NoteCreate \<Rightarrow> error + db \<times> Note mapped" where
  "create_note_for_user d user_id note_create =
     and_then
       (case nc_collection_id note_create of
          None \<Rightarrow> Inr ()
        | Some cid \<Rightarrow>
            if cid = 0 then Inr ()
            else and_then (get_collection_by_id_and_user d cid user_id) (\<lambda>owned_collection.
              case owned_collection of
                None \<Rightarrow> Inl (HTTPException 404 Collection_not_found)
              | Some c \<Rightarrow>
                  if collection_type c = TASKS_ONLY
                  then Inl (HTTPException 400 Note_into_tasks_only)
                  else Inr ()))
       (\<lambda>_. and_then (validate_tags d user_id (nc_tag_ids note_create))
       (\<lambda>_. case create_note d user_id note_create of (d1, new_note) \<Rightarrow>
         and_then
           (case nc_tag_ids note_create of
              None \<Rightarrow> Inr (d1, new_note)
            | Some ids \<Rightarrow> set_note_tags d1 new_note ids)
           (\<lambda>(d2, new_note).
              and_then (refresh_columns note_id (notes_table d2) new_note) (\<lambda>new_note.
              and_then
                (refresh_tags d2 (tag_note_association d2)
                   (note_id (inst_columns new_note) \<in> note_id ` set (notes_table d2))
                   (note_id (inst_columns new_note)) new_note)
                (\<lambda>new_note. Inr (d2, new_note))))))"


section \<open>The orderings compared\<close>

text \<open>
  Descending by last-modified timestamp, and the same with ties broken by identifier,
  descending.
\<close>

definition ordered_by_updated :: "('r \<Rightarrow> int) \<Rightarrow> 'r list \<Rightarrow> bool" where
  "ordered_by_updated updated rows = sorted_wrt (\<lambda>a b. updated b \<le> updated a) rows"

definition ordered_by_updated_then_id :: "('r \<Rightarrow> int) \<Rightarrow> ('r \<Rightarrow> int) \<Rightarrow> 'r list \<Rightarrow> bool" where
  "ordered_by_updated_then_id updated ident rows =
     sorted_wrt (\<lambda>a b. updated b < updated a \<or> (updated b = updated a \<and> ident b \<le> ident a)) rows"


section \<open>The identifiers a validation misses\<close>

text \<open>
  The requested identifiers that name no tag owned by the user: the tag does not exist,
  or it is another user's.
\<close>

definition missing_ids :: "db \<Rightarrow> int \<Rightarrow> int list \<Rightarrow> int set" where
  "missing_ids d user_id tag_ids =
     {i \<in> set tag_ids. \<not> (\<exists>t\<in>set (tags_table d). tag_id t = i \<and> tag_user_id t = user_id)}"


section \<open>An example store\<close>

text \<open>
  Two users. For user 1 the query \<open>proj\<close> matches three tasks (two of them modified
  at the same time), two notes, no collection and one tag.
\<close>

definition example_db :: db where
  "example_db =
     \<lparr>tags_table =
        [\<lparr>tag_id = 1, tag_user_id = 1, tag_title = ''project-x'',
          tag_created_at = 1, tag_updated_at = 5\<rparr>,
         \<lparr>tag_id = 2, tag_user_id = 2, tag_title = ''Project y'',
          tag_created_at = 1, tag_updated_at = 6\<rparr>,
         \<lparr>tag_id = 3, tag_user_id = 1, tag_title = ''abc'',
          tag_created_at = 1, tag_updated_at = 5\<rparr>],
      tasks_table =
        [\<lparr>task_id = 1, task_user_id = 1, task_collection_id = None,
          task_title = ''Project plan'', task_description = None,
          task_status = ''TODO'', task_priority = ''MEDIUM'',
          task_created_at = 1, task_updated_at = 10\<rparr>,
         \<lparr>task_id = 2, task_user_id = 1, task_collection_id = None,
          task_title = ''proj review'', task_description = None,
          task_status = ''DONE'', task_priority = ''HIGH'',
          task_created_at = 2, task_updated_at = 10\<rparr>,
         \<lparr>task_id = 3, task_user_id = 1, task_collection_id = Some 1,
          task_title = ''x'', task_description = Some ''PROJ notes'',
          task_status = ''TODO'', task_priority = ''LOW'',
          task_created_at = 3, task_updated_at = 12\<rparr>,
         \<lparr>task_id = 4, task_user_id = 2, task_collection_id = None,
          task_title = ''project other'', task_description = None,
          task_status = ''TODO'', task_priority = ''LOW'',
          task_created_at = 4, task_updated_at = 20\<rparr>],
      notes_table =
        [\<lparr>note_id = 1, note_user_id = 1, note_collection_id = None,
          note_title = ''Proj ideas'', note_description = None,
          note_created_at = 1, note_updated_at = 3\<rparr>,
         \<lparr>note_id = 2, note_user_id = 1, note_collection_id = Some 0,
          note_title = ''misc'', note_description = Some ''my project'',
          note_created_at = 2, note_updated_at = 4\<rparr>,
         \<lparr>note_id = 3, note_user_id = 2, note_collection_id = None,
          note_title = ''proj'', note_description = None,
          note_created_at = 3, note_updated_at = 9\<rparr>],
      collections_table =
        [\<lparr>collection_id = 1, collection_user_id = 1, collection_title = ''Work'',
          collection_description = None, collection_type = MIXED,
          collection_created_at = 1, collection_updated_at = 2\<rparr>,
         \<lparr>collection_id = 2, collection_user_id = 2, collection_title = ''projects'',
          collection_description = None, collection_type = MIXED,
          collection_created_at = 1, collection_updated_at = 2\<rparr>],
      tag_task_association = [(1, 1), (3, 1)],
      tag_note_association = [],
      tag_collection_association = [],
      clock = 100\<rparr>"

text \<open>
  Mapped objects for the example store: the first task, note and collection of user 1
  as fetched (persistent, tags not loaded), and one new object of each kind that has
  not been flushed: the task and the collection added to the session (pending), the
  note not yet added (transient).
\<close>

definition example_tag :: Tag where
  "example_tag = \<lparr>tag_id = 3, tag_user_id = 1, tag_title = ''abc'',
                   tag_created_at = 1, tag_updated_at = 5\<rparr>"

definition example_task :: "Task mapped" where
  "example_task =
     \<lparr>inst_columns =
        \<lparr>task_id = 1, task_user_id = 1, task_collection_id = None,
         task_title = ''Project plan'', task_description = None,
         task_status = ''TODO'', task_priority = ''MEDIUM'',
         task_created_at = 1, task_updated_at = 10\<rparr>,
      inst_state = Persistent, inst_tags = []\<rparr>"

definition example_new_task :: "Task mapped" where
  "example_new_task =
     \<lparr>inst_columns =
        \<lparr>task_id = 0, task_user_id = 1, task_collection_id = None,
         task_title = ''new'', task_description = None,
         task_status = ''TODO'', task_priority = ''MEDIUM'',
         task_created_at = 0, task_updated_at = 0\<rparr>,
      inst_state = Pending, inst_tags = []\<rparr>"

definition example_note :: "Note mapped" where
  "example_note =
     \<lparr>inst_columns =
        \<lparr>note_id = 1, note_user_id = 1, note_collection_id = None,
         note_title = ''Proj ideas'', note_description = None,
         note_created_at = 1, note_updated_at = 3\<rparr>,
      inst_state = Persistent, inst_tags = []\<rparr>"

definition example_new_note :: "Note mapped" where
  "example_new_note =
     \<lparr>inst_columns =
        \<lparr>note_id = 0, note_user_id = 1, note_collection_id = None,
         note_title = ''new'', note_description = None,
         note_created_at = 0, note_updated_at = 0\<rparr>,
      inst_state = Transient, inst_tags = []\<rparr>"

definition example_collection :: "Collection mapped" where
  "example_collection =
     \<lparr>inst_columns =
        \<lparr>collection_id = 1, collection_user_id = 1, collection_title = ''Work'',
         collection_description = None, collection_type = MIXED,
         collection_created_at = 1, collection_updated_at = 2\<rparr>,
      inst_state = Persistent, inst_tags = []\<rparr>"

definition example_new_collection :: "Collection mapped" where
  "example_new_collection =
     \<lparr>inst_columns =
        \<lparr>collection_id = 0, collection_user_id = 1, collection_title = ''new'',
         collection_description = None, collection_type = MIXED,
         collection_created_at = 0, collection_updated_at = 0\<rparr>,
      inst_state = Pending, inst_tags = []\<rparr>"


text \<open>Request bodies that differ in the collection they name.\<close>

definition example_task_create :: "int option \<Rightarrow> TaskCreate" where
  "example_task_create cid =
     \<lparr>tc_title = ''t'', tc_description = None, tc_status = ''TODO'',
      tc_priority = ''MEDIUM'', tc_collection_id = cid, tc_tag_ids = None\<rparr>"

definition example_note_create :: "int option \<Rightarrow> NoteCreate" where
  "example_note_create cid =
     \<lparr>nc_title = ''n'', nc_description = None, nc_collection_id = cid, nc_tag_ids = None\<rparr>"

text \<open>The \<open>collection_id\<close> an outcome of a creation leaves on the new object.\<close>

definition created_in :: "('r \<Rightarrow> int option) \<Rightarrow> error + db \<times> 'r mapped \<Rightarrow> error + int option" where
  "created_in coll r = map_sum id (\<lambda>p. coll (inst_columns (snd p))) r"

text \<open>
  Four services that count their calls in the state; the note service raises.
\<close>

definition counting_services :: "nat SearchService" where
  "counting_services =
     \<lparr>task_service_search_user_tasks = (\<lambda>u q st pr c sk l n. (Inr [], Suc n)),
      note_service_search_user_notes = (\<lambda>u q c sk l n. (Inl InvalidRequestError, Suc n)),
      collection_service_search_user_collections = (\<lambda>u q ty sk l n. (Inr [], Suc n)),
      tag_service_search_user_tags = (\<lambda>u q sk l n. (Inr [], Suc n))\<rparr>"


section \<open>Properties of the string functions\<close>
















section \<open>Properties of the query primitives\<close>

lemma set_order_by_desc: "set (order_by_desc key rows) = set rows"
  by (simp add: order_by_desc_def)

lemma set_offset: "set (offset skip rows) \<subseteq> set rows"
  by (auto simp: offset_def split: option.splits dest: in_set_dropD)

lemma set_limit: "set (limit lim rows) \<subseteq> set rows"
  by (auto simp: limit_def split: option.splits dest: in_set_takeD)

lemma window_subset: "set (limit lim (offset skip (order_by_desc key rows))) \<subseteq> set rows"
  using set_limit set_offset set_order_by_desc by fast

lemma window_member:
  "r \<in> set (limit lim (offset skip (order_by_desc key rows))) \<Longrightarrow> r \<in> set rows"
  using window_subset[of lim skip key rows] by auto

lemma search_tasks_scoped:
  "t \<in> set (search_tasks d user_id query status priority coll_id skip lim)
     \<Longrightarrow> task_user_id (inst_columns t) = user_id"
  by (auto simp: search_tasks_def Let_def loaded_def dest!: window_member split: if_splits)

lemma search_notes_scoped:
  "n \<in> set (search_notes d user_id query coll_id skip lim)
     \<Longrightarrow> note_user_id (inst_columns n) = user_id"
  by (auto simp: search_notes_def Let_def loaded_def dest!: window_member split: if_splits)

lemma search_collections_scoped:
  "c \<in> set (search_collections d user_id query type_filter skip lim)
     \<Longrightarrow> collection_user_id (inst_columns c) = user_id"
  by (auto simp: search_collections_def Let_def loaded_def dest!: window_member split: if_splits)

lemma search_tags_scoped:
  "t \<in> set (search_tags d user_id query skip lim) \<Longrightarrow> tag_user_id t = user_id"
  by (auto simp: search_tags_def Let_def dest!: window_member split: if_splits)

lemma sorted_order_by_desc:
  "sorted_wrt (\<lambda>a b. key b \<le> key a) (order_by_desc key rows)"
proof -
  have "sorted (map (\<lambda>r. - key r) (sort_key (\<lambda>r. - key r) rows))"
    by (rule sorted_sort_key)
  then show ?thesis
    by (simp add: order_by_desc_def sorted_map)
qed

lemma sorted_window:
  "sorted_wrt (\<lambda>a b. key b \<le> key a) (limit lim (offset skip (order_by_desc key rows)))"
  using sorted_order_by_desc[of key rows]
  by (auto simp: limit_def offset_def split: option.splits)

lemma sorted_loaded:
  "sorted_wrt (\<lambda>a b. key b \<le> key a) rows
     \<Longrightarrow> sorted_wrt (\<lambda>a b. key (inst_columns b) \<le> key (inst_columns a)) (map (\<lambda>r. loaded r (f r)) rows)"
  by (simp add: sorted_wrt_map loaded_def)

lemma search_tasks_sorted:
  "sorted_wrt (\<lambda>a b. task_updated_at (inst_columns b) \<le> task_updated_at (inst_columns a))
     (search_tasks d user_id query status priority coll_id skip lim)"
  unfolding search_tasks_def Let_def by (intro sorted_loaded sorted_window)

lemma search_notes_sorted:
  "sorted_wrt (\<lambda>a b. note_updated_at (inst_columns b) \<le> note_updated_at (inst_columns a))
     (search_notes d user_id query coll_id skip lim)"
  unfolding search_notes_def Let_def by (intro sorted_loaded sorted_window)

lemma search_collections_sorted:
  "sorted_wrt (\<lambda>a b. collection_updated_at (inst_columns b) \<le> collection_updated_at (inst_columns a))
     (search_collections d user_id query type_filter skip lim)"
  unfolding search_collections_def Let_def by (intro sorted_loaded sorted_window)

lemma search_tags_sorted:
  "sorted_wrt (\<lambda>a b. tag_updated_at b \<le> tag_updated_at a)
     (search_tags d user_id query skip lim)"
  unfolding search_tags_def Let_def by (rule sorted_window)







section \<open>Text matching\<close>





section \<open>Order of the results\<close>

lemma search_tasks_ordered:
  "ordered_by_updated task_updated_at
     (map inst_columns (search_tasks d user_id query status priority coll_id skip lim))"
  using search_tasks_sorted[of d user_id query status priority coll_id skip lim]
  by (simp add: ordered_by_updated_def sorted_wrt_map)

lemma search_notes_ordered:
  "ordered_by_updated note_updated_at
     (map inst_columns (search_notes d user_id query coll_id skip lim))"
  using search_notes_sorted[of d user_id query coll_id skip lim]
  by (simp add: ordered_by_updated_def sorted_wrt_map)

lemma search_collections_ordered:
  "ordered_by_updated collection_updated_at
     (map inst_columns (search_collections d user_id query type_filter skip lim))"
  using search_collections_sorted[of d user_id query type_filter skip lim]
  by (simp add: ordered_by_updated_def sorted_wrt_map)

lemma search_tags_ordered:
  "ordered_by_updated tag_updated_at (search_tags d user_id query skip lim)"
  using search_tags_sorted[of d user_id query skip lim]
  by (simp add: ordered_by_updated_def)

text \<open>
  C6, as the claim states it, fails: the statements order by \<open>updated_at\<close> alone.
  Tasks 1 and 2 of the example store were modified at the same time and come back in
  the order of the table, the smaller identifier first.
\<close>

theorem search_tie_order_counterexample:
  "map (task_id \<circ> inst_columns)
     (search_tasks example_db 1 ''proj'' None None None None None) = [3, 1, 2]
   \<and> map (task_updated_at \<circ> inst_columns)
     (search_tasks example_db 1 ''proj'' None None None None None) = [12, 10, 10]
   \<and> \<not> ordered_by_updated_then_id task_updated_at task_id
         (map inst_columns (search_tasks example_db 1 ''proj'' None None None None None))"
  by code_simp

text \<open>
  C6 (amended). For every user, query, filters, skip and limit, the sequence returned
  by each of the four searches is ordered descending by last-modified timestamp. No
  order by identifier is imposed on entities modified at the same time.
\<close>

theorem search_ordered_by_updated:
  "ordered_by_updated task_updated_at
     (map inst_columns (search_tasks d user_id query status priority coll_id skip lim))
   \<and> ordered_by_updated note_updated_at
     (map inst_columns (search_notes d user_id query coll_id skip lim))
   \<and> ordered_by_updated collection_updated_at
     (map inst_columns (search_collections d user_id query type_filter skip lim))
   \<and> ordered_by_updated tag_updated_at (search_tags d user_id query skip lim)"
  by (intro conjI)
    (rule search_tasks_ordered search_notes_ordered search_collections_ordered
       search_tags_ordered)+


section \<open>Scope of the results\<close>

lemma example_tasks_found: "search_tasks example_db 1 ''proj'' None None None (Some 1) (Some 2) \<noteq> []"
  by code_simp
lemma example_notes_found: "search_notes example_db 1 ''proj'' None None None \<noteq> []"
  by code_simp
lemma example_collections_found: "search_collections example_db 2 ''proj'' (Some MIXED) None None \<noteq> []"
  by code_simp
lemma example_tags_found: "search_tags example_db 2 ''proj'' None None \<noteq> []"
  by code_simp

text \<open>
  C9. Whatever the query, the filters, skip and limit, every entity that one of the
  four searches returns belongs to the user the search was made for.
\<close>

theorem search_results_scoped:
  "(\<forall>t\<in>set (search_tasks d user_id query status priority coll_id skip lim).
      task_user_id (inst_columns t) = user_id)
   \<and> (\<forall>n\<in>set (search_notes d user_id query coll_id skip lim).
      note_user_id (inst_columns n) = user_id)
   \<and> (\<forall>c\<in>set (search_collections d user_id query type_filter skip lim).
      collection_user_id (inst_columns c) = user_id)
   \<and> (\<forall>t\<in>set (search_tags d user_id query skip lim). tag_user_id t = user_id)"
  by (intro conjI ballI)
    (erule search_tasks_scoped search_notes_scoped search_collections_scoped
       search_tags_scoped)+

theorem search_results_scoped_witness:
  "search_tasks example_db 1 ''proj'' None None None (Some 1) (Some 2) \<noteq> []
   \<and> list_all (\<lambda>t. task_user_id (inst_columns t) = 1)
        (search_tasks example_db 1 ''proj'' None None None (Some 1) (Some 2))
   \<and> search_notes example_db 1 ''proj'' None None None \<noteq> []
   \<and> list_all (\<lambda>n. note_user_id (inst_columns n) = 1)
        (search_notes example_db 1 ''proj'' None None None)
   \<and> search_collections example_db 2 ''proj'' (Some MIXED) None None \<noteq> []
   \<and> list_all (\<lambda>c. collection_user_id (inst_columns c) = 2)
        (search_collections example_db 2 ''proj'' (Some MIXED) None None)
   \<and> search_tags example_db 2 ''proj'' None None \<noteq> []
   \<and> list_all (\<lambda>t. tag_user_id t = 2) (search_tags example_db 2 ''proj'' None None)"
proof -
  note a = search_results_scoped[where d = example_db and user_id = 1 and query = "''proj''"
      and status = None and priority = None and coll_id = None and skip = "Some 1"
      and lim = "Some 2" and type_filter = None]
  note b = search_results_scoped[where d = example_db and user_id = 1 and query = "''proj''"
      and status = None and priority = None and coll_id = None and skip = None
      and lim = None and type_filter = None]
  note c = search_results_scoped[where d = example_db and user_id = 2 and query = "''proj''"
      and status = None and priority = None and coll_id = None and skip = None
      and lim = None and type_filter = "Some MIXED"]
  have 1: "list_all (\<lambda>t. task_user_id (inst_columns t) = 1)
        (search_tasks example_db 1 ''proj'' None None None (Some 1) (Some 2))"
    using a unfolding list_all_iff by (elim conjE)
  have 2: "list_all (\<lambda>n. note_user_id (inst_columns n) = 1)
        (search_notes example_db 1 ''proj'' None None None)"
    using b unfolding list_all_iff by (elim conjE)
  have 3: "list_all (\<lambda>c. collection_user_id (inst_columns c) = 2)
        (search_collections example_db 2 ''proj'' (Some MIXED) None None)"
    using c unfolding list_all_iff by (elim conjE)
  have 4: "list_all (\<lambda>t. tag_user_id t = 2) (search_tags example_db 2 ''proj'' None None)"
    using c unfolding list_all_iff by (elim conjE)
  show ?thesis
    by (intro conjI) (rule example_tasks_found example_notes_found example_collections_found
       example_tags_found 1 2 3 4)+
qed


section \<open>Filter values that are set but falsy\<close>

lemma search_tasks_empty_status:
  "search_tasks d u q (Some []) pr c sk l = search_tasks d u q None pr c sk l"
  by (simp add: search_tasks_def truthy_str_def)

lemma search_tasks_empty_priority:
  "search_tasks d u q st (Some []) c sk l = search_tasks d u q st None c sk l"
  by (simp add: search_tasks_def truthy_str_def)

lemma search_tasks_zero_collection:
  "search_tasks d u q st pr (Some 0) sk l = search_tasks d u q st pr None sk l"
  by (simp add: search_tasks_def truthy_int_def)

lemma search_notes_zero_collection:
  "n \<in> set (search_notes d u q (Some 0) sk l) \<Longrightarrow> note_collection_id (inst_columns n) = Some 0"
  by (auto simp: search_notes_def Let_def loaded_def dest!: window_member split: if_splits)

lemma notes_zero_nonempty:
  "map (note_id \<circ> inst_columns) (search_notes example_db 1 ''proj'' (Some 0) None None) = [2]"
  by code_simp

lemma notes_none_all:
  "map (note_id \<circ> inst_columns) (search_notes example_db 1 ''proj'' None None None) = [2, 1]"
  by code_simp

text \<open>
  C10. In \<open>search_tasks\<close> an empty-string status or priority and a collection
  identifier \<open>0\<close> give the same result as \<open>None\<close>; the same holds through the
  service. In \<open>search_notes\<close> the collection identifier \<open>0\<close> is a constraint:
  every note returned has \<open>collection_id = 0\<close>.
\<close>

theorem falsy_filters_tasks_versus_notes:
  "search_tasks d u q (Some []) pr c sk l = search_tasks d u q None pr c sk l
   \<and> search_tasks d u q st (Some []) c sk l = search_tasks d u q st None c sk l
   \<and> search_tasks d u q st pr (Some 0) sk l = search_tasks d u q st pr None sk l
   \<and> search_user_tasks d u q (Some []) pr c sk l = search_user_tasks d u q None pr c sk l
   \<and> search_user_tasks d u q st pr (Some 0) sk l = search_user_tasks d u q st pr None sk l
   \<and> (\<forall>n\<in>set (search_notes d u q (Some 0) sk l).
        note_collection_id (inst_columns n) = Some 0)"
  using search_notes_zero_collection[of _ d u q sk l]
  by (simp add: search_tasks_empty_status search_tasks_empty_priority
      search_tasks_zero_collection search_user_tasks_def)

theorem falsy_filters_tasks_versus_notes_witness:
  "map (note_id \<circ> inst_columns) (search_notes example_db 1 ''proj'' (Some 0) None None) = [2]
   \<and> map (note_id \<circ> inst_columns) (search_notes example_db 1 ''proj'' None None None) = [2, 1]
   \<and> list_all (\<lambda>n. note_collection_id (inst_columns n) = Some 0)
        (search_notes example_db 1 ''proj'' (Some 0) None None)
   \<and> search_tasks example_db 1 ''proj'' None None (Some 0) None None =
       search_tasks example_db 1 ''proj'' None None None None None"
proof -
  note t = falsy_filters_tasks_versus_notes[where d = example_db and u = 1 and q = "''proj''"
      and st = None and pr = None and c = None and sk = None and l = None]
  have 1: "list_all (\<lambda>n. note_collection_id (inst_columns n) = Some 0)
        (search_notes example_db 1 ''proj'' (Some 0) None None)"
    using t unfolding list_all_iff by (elim conjE)
  have 2: "search_tasks example_db 1 ''proj'' None None (Some 0) None None =
       search_tasks example_db 1 ''proj'' None None None None None"
    using t by (elim conjE)
  show ?thesis
    by (intro conjI) (rule notes_zero_nonempty notes_none_all 1 2)+
qed


section \<open>Global search\<close>








text \<open>
  C8. Whatever the four injected services are: a query that fails the check makes
  \<open>global_search\<close> raise the 400 error with the state untouched, so no service has
  run; a query that passes is handed, stripped, to the four services, and if any of
  them raises then \<open>global_search\<close> raises one of their exceptions (the only one, if
  only one raised) and returns no envelope; if none raises an envelope is returned.
\<close>

theorem global_search_validation_and_join:
  assumes "task_service_search_user_tasks self user_id (strip query)
             None None None None None s = (r1, s1)"
    and "note_service_search_user_notes self user_id (strip query) None None None s1 = (r2, s2)"
    and "collection_service_search_user_collections self user_id (strip query)
           None None None s2 = (r3, s3)"
    and "tag_service_search_user_tags self user_id (strip query) None None s3 = (r4, s4)"
  shows "(query_rejected query \<longrightarrow>
           global_search self user_id query limit_per_type s =
             (Inl (HTTPException 400 Query_too_short), s))
    \<and> (\<not> query_rejected query \<longrightarrow>
         (isl r1 \<or> isl r2 \<or> isl r3 \<or> isl r4 \<longrightarrow>
            (\<exists>e. fst (global_search self user_id query limit_per_type s) = Inl e
               \<and> (r1 = Inl e \<or> r2 = Inl e \<or> r3 = Inl e \<or> r4 = Inl e)))
         \<and> (\<not> (isl r1 \<or> isl r2 \<or> isl r3 \<or> isl r4) \<longrightarrow>
            (\<exists>env. fst (global_search self user_id query limit_per_type s) = Inr env)))"
proof -
  have a: "query_rejected query \<Longrightarrow>
      global_search self user_id query limit_per_type s =
        (Inl (HTTPException 400 Query_too_short), s)"
    by (simp add: global_search_def)
  have g: "\<not> query_rejected query \<Longrightarrow>
      fst (global_search self user_id query limit_per_type s) =
        (case gather r1 r2 r3 r4 of
           Inl e \<Rightarrow> Inl e
         | Inr (tasks_results, notes_results, collections_results, tags_results) \<Rightarrow>
             Inr \<lparr>env_query = strip query,
                  results_tasks =
                    map TaskOut_model_validate (slice_to tasks_results limit_per_type),
                  results_notes =
                    map NoteOut_model_validate (slice_to notes_results limit_per_type),
                  results_collections =
                    map CollectionOut_model_validate
                      (slice_to collections_results limit_per_type),
                  results_tags =
                    map TagOut_model_validate (slice_to tags_results limit_per_type),
                  total_count = length tasks_results + length notes_results
                    + length collections_results + length tags_results\<rparr>)"
    using assms by (simp add: global_search_def split: sum.splits prod.splits)
  have b: "isl r1 \<or> isl r2 \<or> isl r3 \<or> isl r4 \<Longrightarrow>
      \<exists>e. gather r1 r2 r3 r4 = Inl e \<and> (r1 = Inl e \<or> r2 = Inl e \<or> r3 = Inl e \<or> r4 = Inl e)"
    by (cases r1; cases r2; cases r3; cases r4) (simp_all add: gather_def)
  have c: "\<not> (isl r1 \<or> isl r2 \<or> isl r3 \<or> isl r4) \<Longrightarrow> \<exists>v. gather r1 r2 r3 r4 = Inr v"
    by (cases r1; cases r2; cases r3; cases r4) (simp_all add: gather_def)
  have b': "\<not> query_rejected query \<Longrightarrow> isl r1 \<or> isl r2 \<or> isl r3 \<or> isl r4 \<Longrightarrow>
      \<exists>e. fst (global_search self user_id query limit_per_type s) = Inl e
               \<and> (r1 = Inl e \<or> r2 = Inl e \<or> r3 = Inl e \<or> r4 = Inl e)"
    using b g by fastforce
  have c': "\<not> query_rejected query \<Longrightarrow> \<not> (isl r1 \<or> isl r2 \<or> isl r3 \<or> isl r4) \<Longrightarrow>
      \<exists>env. fst (global_search self user_id query limit_per_type s) = Inr env"
  proof -
    assume q: "\<not> query_rejected query" and n: "\<not> (isl r1 \<or> isl r2 \<or> isl r3 \<or> isl r4)"
    from c[OF n] obtain v where "gather r1 r2 r3 r4 = Inr v" ..
    with g[OF q] show ?thesis by (cases v) auto
  qed
  from a b' c' show ?thesis by blast
qed

lemma example_short_query: "query_rejected ''a''"
  by code_simp

lemma example_long_query: "\<not> query_rejected ''ab''"
  by code_simp

theorem global_search_validation_and_join_witness:
  "query_rejected ''a''
   \<and> global_search counting_services 1 ''a'' 5 0 = (Inl (HTTPException 400 Query_too_short), 0)
   \<and> \<not> query_rejected ''ab''
   \<and> fst (global_search counting_services 1 ''ab'' 5 0) = Inl InvalidRequestError"
proof -
  have 1: "task_service_search_user_tasks counting_services 1 (strip ''a'')
             None None None None None 0 = (Inr [], 1)"
    "note_service_search_user_notes counting_services 1 (strip ''a'') None None None 1 =
       (Inl InvalidRequestError, 2)"
    "collection_service_search_user_collections counting_services 1 (strip ''a'')
           None None None 2 = (Inr [], 3)"
    "tag_service_search_user_tags counting_services 1 (strip ''a'') None None 3 = (Inr [], 4)"
    by (simp_all add: counting_services_def)
  have 2: "task_service_search_user_tasks counting_services 1 (strip ''ab'')
             None None None None None 0 = (Inr [], 1)"
    "note_service_search_user_notes counting_services 1 (strip ''ab'') None None None 1 =
       (Inl InvalidRequestError, 2)"
    "collection_service_search_user_collections counting_services 1 (strip ''ab'')
           None None None 2 = (Inr [], 3)"
    "tag_service_search_user_tags counting_services 1 (strip ''ab'') None None 3 = (Inr [], 4)"
    by (simp_all add: counting_services_def)
  from global_search_validation_and_join[OF 1, of 5] example_short_query
  have a: "global_search counting_services 1 ''a'' 5 0 =
      (Inl (HTTPException 400 Query_too_short), 0)"
    by blast
  from global_search_validation_and_join[OF 2, of 5] example_long_query
  have "\<exists>e. fst (global_search counting_services 1 ''ab'' 5 0) = Inl e
      \<and> (Inr [] = Inl e \<or> Inl InvalidRequestError = Inl e
          \<or> Inr [] = Inl e \<or> Inr [] = Inl e)"
    by simp
  then have b: "fst (global_search counting_services 1 ''ab'' 5 0) = Inl InvalidRequestError"
    by auto
  from a b example_short_query example_long_query show ?thesis by simp
qed


section \<open>Tag ownership\<close>

lemma set_dedupe: "set (dedupe xs) = set xs"
  by (simp add: dedupe_def)

lemma dedupe_empty: "dedupe xs = [] \<longleftrightarrow> xs = []"
  using set_dedupe[of xs] by (metis set_empty)

lemma found_ids:
  "tag_id ` set [t \<leftarrow> tags_table d. tag_user_id t = user_id \<and> tag_id t \<in> set tag_ids] =
     set tag_ids - missing_ids d user_id tag_ids"
  by (auto simp: missing_ids_def)

lemma found_ids_collect:
  "tag_id ` {t \<in> set (tags_table d). tag_user_id t = user_id \<and> tag_id t \<in> set tag_ids} =
     set tag_ids - missing_ids d user_id tag_ids"
  by (auto simp: missing_ids_def)

lemma missing_are_requested: "missing_ids d user_id tag_ids \<subseteq> set tag_ids"
  by (auto simp: missing_ids_def)

lemma length_owned:
  assumes "distinct (map tag_id (tags_table d))"
  shows "length [t \<leftarrow> tags_table d. tag_user_id t = user_id \<and> tag_id t \<in> set tag_ids] =
           card (set tag_ids - missing_ids d user_id tag_ids)"
proof -
  let ?tags = "[t \<leftarrow> tags_table d. tag_user_id t = user_id \<and> tag_id t \<in> set tag_ids]"
  have "distinct (map tag_id ?tags)"
    using assms by (rule distinct_map_filter)
  then have "card (set (map tag_id ?tags)) = length (map tag_id ?tags)"
    by (rule distinct_card)
  then show ?thesis
    using found_ids[where d = d and user_id = user_id and tag_ids = tag_ids] by simp
qed

lemma load_tags_missing:
  assumes "distinct (map tag_id (tags_table d))"
    and "missing_ids d user_id tag_ids \<noteq> {}"
  shows "load_tags d user_id tag_ids True =
           Inl (HTTPException 400
                  (Tags_not_found (sorted_list_of_set (missing_ids d user_id tag_ids))))"
proof -
  have ne: "tag_ids \<noteq> []"
    using assms(2) missing_are_requested[of d user_id tag_ids] by auto
  have "set tag_ids - missing_ids d user_id tag_ids \<subset> set tag_ids"
    using assms(2) missing_are_requested[of d user_id tag_ids] by blast
  then have "card (set tag_ids - missing_ids d user_id tag_ids) < card (set tag_ids)"
    by (intro psubset_card_mono) simp_all
  then have neq: "length [t \<leftarrow> tags_table d. tag_user_id t = user_id \<and> tag_id t \<in> set tag_ids]
      \<noteq> card (set tag_ids)"
    using length_owned[OF assms(1), of user_id tag_ids] by simp
  have diff: "set tag_ids - (set tag_ids - missing_ids d user_id tag_ids) =
      missing_ids d user_id tag_ids"
    using missing_are_requested[of d user_id tag_ids] by blast
  show ?thesis
    using ne neq
    by (simp add: load_tags_def Let_def set_dedupe dedupe_empty found_ids_collect diff)
qed

lemma load_tags_resolved:
  assumes "distinct (map tag_id (tags_table d))"
    and "missing_ids d user_id tag_ids = {}"
  shows "load_tags d user_id tag_ids True =
           Inr [t \<leftarrow> tags_table d. tag_user_id t = user_id \<and> tag_id t \<in> set tag_ids]"
proof (cases "tag_ids = []")
  case True
  then show ?thesis by (simp add: load_tags_def dedupe_def)
next
  case False
  have "length [t \<leftarrow> tags_table d. tag_user_id t = user_id \<and> tag_id t \<in> set tag_ids]
      = card (set tag_ids)"
    using length_owned[OF assms(1), of user_id tag_ids] assms(2) by simp
  then show ?thesis
    using False by (simp add: load_tags_def Let_def set_dedupe dedupe_empty)
qed

text \<open>
  C2. In a store whose tag identifiers are unique (the primary key), with
  \<open>require_all\<close> set: if at least one requested identifier names no tag of the user,
  the validator raises the 400 error whose payload is the ascending, duplicate-free
  list of exactly those identifiers (the requested ones less the found ones); if every
  requested identifier names a tag of the user, it returns those tags and raises
  nothing.
\<close>

theorem load_tags_require_all:
  assumes "distinct (map tag_id (tags_table d))"
  shows "(missing_ids d user_id tag_ids \<noteq> {} \<longrightarrow>
            (\<exists>missing. load_tags d user_id tag_ids True =
                 Inl (HTTPException 400 (Tags_not_found missing))
               \<and> set missing = missing_ids d user_id tag_ids
               \<and> sorted missing \<and> distinct missing))
     \<and> (missing_ids d user_id tag_ids = {} \<longrightarrow>
            load_tags d user_id tag_ids True =
              Inr [t \<leftarrow> tags_table d. tag_user_id t = user_id \<and> tag_id t \<in> set tag_ids])"
proof -
  have fin: "finite (missing_ids d user_id tag_ids)"
    using missing_are_requested[of d user_id tag_ids] by (rule finite_subset) simp
  show ?thesis
    using load_tags_missing[OF assms, of user_id tag_ids]
      load_tags_resolved[OF assms, of user_id tag_ids] fin
    by auto
qed

lemma example_primary_key: "distinct (map tag_id (tags_table example_db))"
  by code_simp

lemma example_missing: "missing_ids example_db 1 [3, 9, 1, 9, 2] = {9, 2}"
  by code_simp

lemma example_none_missing: "missing_ids example_db 1 [3, 1, 3] = {}"
  by code_simp

lemma example_owned:
  "map tag_id [t \<leftarrow> tags_table example_db. tag_user_id t = 1 \<and> tag_id t \<in> set [3, 1, 3]] = [1, 3]"
  by code_simp

theorem load_tags_require_all_witness:
  "distinct (map tag_id (tags_table example_db))
   \<and> load_tags example_db 1 [3, 9, 1, 9, 2] True = Inl (HTTPException 400 (Tags_not_found [2, 9]))
   \<and> map_sum id (map tag_id) (load_tags example_db 1 [3, 1, 3] True) = Inr [1, 3]"
proof -
  note t = load_tags_require_all[OF example_primary_key, of 1 "[3, 9, 1, 9, 2]"]
  note u = load_tags_require_all[OF example_primary_key, of 1 "[3, 1, 3]"]
  from t obtain missing where
    l: "load_tags example_db 1 [3, 9, 1, 9, 2] True = Inl (HTTPException 400 (Tags_not_found missing))"
    and m: "set missing = {9, 2}" "sorted missing" "distinct missing"
    unfolding example_missing by blast
  have "missing = sorted_list_of_set {9, 2}"
    using m by (metis sorted_list_of_set.idem_if_sorted_distinct)
  then have "missing = [2, 9]" by simp
  with l have a: "load_tags example_db 1 [3, 9, 1, 9, 2] True =
      Inl (HTTPException 400 (Tags_not_found [2, 9]))" by simp
  from u have "load_tags example_db 1 [3, 1, 3] True =
      Inr [t \<leftarrow> tags_table example_db. tag_user_id t = 1 \<and> tag_id t \<in> set [3, 1, 3]]"
    unfolding example_none_missing by blast
  then have "map_sum id (map tag_id) (load_tags example_db 1 [3, 1, 3] True) =
      Inr (map tag_id
        [t \<leftarrow> tags_table example_db. tag_user_id t = 1 \<and> tag_id t \<in> set [3, 1, 3]])"
    by (simp only: map_sum.simps)
  then have b: "map_sum id (map tag_id) (load_tags example_db 1 [3, 1, 3] True) = Inr [1, 3]"
    by (simp only: example_owned)
  from example_primary_key a b show ?thesis by blast
qed


section \<open>Tag reconciliation\<close>

lemma and_then_Inr: "and_then (Inr x) f = f x"
  by (simp add: and_then_def)

lemma and_then_Inl: "and_then (Inl e) f = Inl e"
  by (simp add: and_then_def)

lemma load_tags_same_tags:
  "tags_table d' = tags_table d \<Longrightarrow> load_tags d' u ids r = load_tags d u ids r"
  unfolding load_tags_def Let_def by simp

lemma write_links_idem:
  "write_links (write_links assoc eid ts) eid ts = write_links assoc eid ts"
  by (simp add: write_links_def filter_map comp_def)







lemma set_task_tags_persistent:
  assumes "load_tags d (task_user_id (inst_columns task)) tag_ids True = Inr tags"
    and "inst_state task = Persistent"
    and "task_id (inst_columns task) \<in> task_id ` set (tasks_table d)"
  shows "set_task_tags d task tag_ids =
           Inr (d\<lparr>tag_task_association :=
                    write_links (tag_task_association d) (task_id (inst_columns task)) tags\<rparr>,
                task\<lparr>inst_tags := tags\<rparr>)"
  using assms
  by (simp add: set_task_tags_def and_then_Inr is_new_or_pending_def refresh_tags_def
      flush_task_def list_extend_def list_clear_def)

lemma set_note_tags_persistent:
  assumes "load_tags d (note_user_id (inst_columns nt)) tag_ids True = Inr tags"
    and "inst_state nt = Persistent"
    and "note_id (inst_columns nt) \<in> note_id ` set (notes_table d)"
  shows "set_note_tags d nt tag_ids =
           Inr (d\<lparr>tag_note_association :=
                    write_links (tag_note_association d) (note_id (inst_columns nt)) tags\<rparr>,
                nt\<lparr>inst_tags := tags\<rparr>)"
  using assms
  by (simp add: set_note_tags_def and_then_Inr is_new_or_pending_def refresh_tags_def
      flush_note_def list_extend_def list_clear_def)

lemma set_collection_tags_persistent:
  assumes "load_tags d (collection_user_id (inst_columns coll)) tag_ids True = Inr tags"
    and "inst_state coll = Persistent"
    and "collection_id (inst_columns coll) \<in> collection_id ` set (collections_table d)"
  shows "set_collection_tags d coll tag_ids =
           Inr (d\<lparr>tag_collection_association :=
                    write_links (tag_collection_association d)
                      (collection_id (inst_columns coll)) tags\<rparr>,
                coll\<lparr>inst_tags := tags\<rparr>)"
  using assms
  by (simp add: set_collection_tags_def and_then_Inr is_new_or_pending_def refresh_tags_def
      flush_collection_def list_extend_def list_clear_def)




lemma example_resolves: "load_tags example_db 1 [3] True = Inr [example_tag]"
  by code_simp

lemma example_objects_owner:
  "task_user_id (inst_columns example_task) = 1"
  "task_user_id (inst_columns example_new_task) = 1"
  "note_user_id (inst_columns example_note) = 1"
  "note_user_id (inst_columns example_new_note) = 1"
  "collection_user_id (inst_columns example_collection) = 1"
  "collection_user_id (inst_columns example_new_collection) = 1"
  by (simp_all add: example_task_def example_new_task_def example_note_def
      example_new_note_def example_collection_def example_new_collection_def)


lemma example_objects_persistent:
  "inst_state example_task = Persistent
     \<and> task_id (inst_columns example_task) \<in> task_id ` set (tasks_table example_db)"
  "inst_state example_note = Persistent
     \<and> note_id (inst_columns example_note) \<in> note_id ` set (notes_table example_db)"
  "inst_state example_collection = Persistent
     \<and> collection_id (inst_columns example_collection)
         \<in> collection_id ` set (collections_table example_db)"
  by code_simp+


text \<open>
  C7. For a persistent task, note or collection whose row is in the store, and desired
  identifiers that resolve for its owner: the reconciler succeeds, leaving the object
  with the resolved tags, and a second call with the same identifiers, made on the
  store and the object the first call left, succeeds and leaves both exactly as they
  were.
\<close>

theorem set_tags_idempotent:
  "(inst_state task = Persistent
      \<and> task_id (inst_columns task) \<in> task_id ` set (tasks_table d)
      \<and> load_tags d (task_user_id (inst_columns task)) tag_ids True = Inr tags \<longrightarrow>
      (\<exists>d1 task1. set_task_tags d task tag_ids = Inr (d1, task1)
         \<and> inst_tags task1 = tags
         \<and> set_task_tags d1 task1 tag_ids = Inr (d1, task1)))
   \<and> (inst_state nt = Persistent
      \<and> note_id (inst_columns nt) \<in> note_id ` set (notes_table d)
      \<and> load_tags d (note_user_id (inst_columns nt)) tag_ids True = Inr tags \<longrightarrow>
      (\<exists>d1 note1. set_note_tags d nt tag_ids = Inr (d1, note1)
         \<and> inst_tags note1 = tags
         \<and> set_note_tags d1 note1 tag_ids = Inr (d1, note1)))
   \<and> (inst_state coll = Persistent
      \<and> collection_id (inst_columns coll) \<in> collection_id ` set (collections_table d)
      \<and> load_tags d (collection_user_id (inst_columns coll)) tag_ids True = Inr tags \<longrightarrow>
      (\<exists>d1 coll1. set_collection_tags d coll tag_ids = Inr (d1, coll1)
         \<and> inst_tags coll1 = tags
         \<and> set_collection_tags d1 coll1 tag_ids = Inr (d1, coll1)))"
proof (intro conjI impI)
  assume a: "inst_state task = Persistent
      \<and> task_id (inst_columns task) \<in> task_id ` set (tasks_table d)
      \<and> load_tags d (task_user_id (inst_columns task)) tag_ids True = Inr tags"
  define d1 where "d1 = d\<lparr>tag_task_association :=
      write_links (tag_task_association d) (task_id (inst_columns task)) tags\<rparr>"
  define task1 where "task1 = task\<lparr>inst_tags := tags\<rparr>"
  have first: "set_task_tags d task tag_ids = Inr (d1, task1)"
    using a set_task_tags_persistent[of d task tag_ids tags] by (simp add: d1_def task1_def)
  have l: "load_tags d1 (task_user_id (inst_columns task1)) tag_ids True = Inr tags"
    using a load_tags_same_tags[of d1 d] by (simp add: d1_def task1_def)
  have "set_task_tags d1 task1 tag_ids =
      Inr (d1\<lparr>tag_task_association :=
               write_links (tag_task_association d1) (task_id (inst_columns task1)) tags\<rparr>,
           task1\<lparr>inst_tags := tags\<rparr>)"
    using a by (intro set_task_tags_persistent[OF l]) (simp_all add: d1_def task1_def)
  then have "set_task_tags d1 task1 tag_ids = Inr (d1, task1)"
    by (simp add: d1_def task1_def write_links_idem)
  with first show "\<exists>d1 task1. set_task_tags d task tag_ids = Inr (d1, task1)
         \<and> inst_tags task1 = tags
         \<and> set_task_tags d1 task1 tag_ids = Inr (d1, task1)"
    by (auto simp: task1_def)
next
  assume a: "inst_state nt = Persistent
      \<and> note_id (inst_columns nt) \<in> note_id ` set (notes_table d)
      \<and> load_tags d (note_user_id (inst_columns nt)) tag_ids True = Inr tags"
  define d1 where "d1 = d\<lparr>tag_note_association :=
      write_links (tag_note_association d) (note_id (inst_columns nt)) tags\<rparr>"
  define note1 where "note1 = nt\<lparr>inst_tags := tags\<rparr>"
  have first: "set_note_tags d nt tag_ids = Inr (d1, note1)"
    using a set_note_tags_persistent[of d nt tag_ids tags] by (simp add: d1_def note1_def)
  have l: "load_tags d1 (note_user_id (inst_columns note1)) tag_ids True = Inr tags"
    using a load_tags_same_tags[of d1 d] by (simp add: d1_def note1_def)
  have "set_note_tags d1 note1 tag_ids =
      Inr (d1\<lparr>tag_note_association :=
               write_links (tag_note_association d1) (note_id (inst_columns note1)) tags\<rparr>,
           note1\<lparr>inst_tags := tags\<rparr>)"
    using a by (intro set_note_tags_persistent[OF l]) (simp_all add: d1_def note1_def)
  then have "set_note_tags d1 note1 tag_ids = Inr (d1, note1)"
    by (simp add: d1_def note1_def write_links_idem)
  with first show "\<exists>d1 note1. set_note_tags d nt tag_ids = Inr (d1, note1)
         \<and> inst_tags note1 = tags
         \<and> set_note_tags d1 note1 tag_ids = Inr (d1, note1)"
    by (auto simp: note1_def)
next
  assume a: "inst_state coll = Persistent
      \<and> collection_id (inst_columns coll) \<in> collection_id ` set (collections_table d)
      \<and> load_tags d (collection_user_id (inst_columns coll)) tag_ids True = Inr tags"
  define d1 where "d1 = d\<lparr>tag_collection_association :=
      write_links (tag_collection_association d) (collection_id (inst_columns coll)) tags\<rparr>"
  define coll1 where "coll1 = coll\<lparr>inst_tags := tags\<rparr>"
  have first: "set_collection_tags d coll tag_ids = Inr (d1, coll1)"
    using a set_collection_tags_persistent[of d coll tag_ids tags]
    by (simp add: d1_def coll1_def)
  have l: "load_tags d1 (collection_user_id (inst_columns coll1)) tag_ids True = Inr tags"
    using a load_tags_same_tags[of d1 d] by (simp add: d1_def coll1_def)
  have "set_collection_tags d1 coll1 tag_ids =
      Inr (d1\<lparr>tag_collection_association :=
               write_links (tag_collection_association d1)
                 (collection_id (inst_columns coll1)) tags\<rparr>,
           coll1\<lparr>inst_tags := tags\<rparr>)"
    using a by (intro set_collection_tags_persistent[OF l]) (simp_all add: d1_def coll1_def)
  then have "set_collection_tags d1 coll1 tag_ids = Inr (d1, coll1)"
    by (simp add: d1_def coll1_def write_links_idem)
  with first show "\<exists>d1 coll1. set_collection_tags d coll tag_ids = Inr (d1, coll1)
         \<and> inst_tags coll1 = tags
         \<and> set_collection_tags d1 coll1 tag_ids = Inr (d1, coll1)"
    by (auto simp: coll1_def)
qed

theorem set_tags_idempotent_witness:
  "inst_state example_task = Persistent
   \<and> load_tags example_db 1 [3] True = Inr [example_tag]
   \<and> (case set_task_tags example_db example_task [3] of
        Inl e \<Rightarrow> False
      | Inr (d1, task1) \<Rightarrow> inst_tags task1 = [example_tag]
          \<and> set_task_tags d1 task1 [3] = Inr (d1, task1))
   \<and> (case set_note_tags example_db example_note [3] of
        Inl e \<Rightarrow> False
      | Inr (d1, note1) \<Rightarrow> inst_tags note1 = [example_tag]
          \<and> set_note_tags d1 note1 [3] = Inr (d1, note1))
   \<and> (case set_collection_tags example_db example_collection [3] of
        Inl e \<Rightarrow> False
      | Inr (d1, coll1) \<Rightarrow> inst_tags coll1 = [example_tag]
          \<and> set_collection_tags d1 coll1 [3] = Inr (d1, coll1))"
proof -
  note t = set_tags_idempotent[where d = example_db and tag_ids = "[3]"
      and tags = "[example_tag]" and task = example_task and nt = example_note
      and coll = example_collection]
  from t example_resolves example_objects_persistent
  have 1: "\<exists>d1 task1. set_task_tags example_db example_task [3] = Inr (d1, task1)
         \<and> inst_tags task1 = [example_tag]
         \<and> set_task_tags d1 task1 [3] = Inr (d1, task1)"
    and 2: "\<exists>d1 note1. set_note_tags example_db example_note [3] = Inr (d1, note1)
         \<and> inst_tags note1 = [example_tag]
         \<and> set_note_tags d1 note1 [3] = Inr (d1, note1)"
    and 3: "\<exists>d1 coll1. set_collection_tags example_db example_collection [3] = Inr (d1, coll1)
         \<and> inst_tags coll1 = [example_tag]
         \<and> set_collection_tags d1 coll1 [3] = Inr (d1, coll1)"
    unfolding example_objects_owner by blast+
  from 1 have a: "case set_task_tags example_db example_task [3] of
        Inl e \<Rightarrow> False
      | Inr (d1, task1) \<Rightarrow> inst_tags task1 = [example_tag]
          \<and> set_task_tags d1 task1 [3] = Inr (d1, task1)"
    by auto
  from 2 have b: "case set_note_tags example_db example_note [3] of
        Inl e \<Rightarrow> False
      | Inr (d1, note1) \<Rightarrow> inst_tags note1 = [example_tag]
          \<and> set_note_tags d1 note1 [3] = Inr (d1, note1)"
    by auto
  from 3 have c: "case set_collection_tags example_db example_collection [3] of
        Inl e \<Rightarrow> False
      | Inr (d1, coll1) \<Rightarrow> inst_tags coll1 = [example_tag]
          \<and> set_collection_tags d1 coll1 [3] = Inr (d1, coll1)"
    by auto
  from a b c example_resolves example_objects_persistent(1) show ?thesis by simp
qed


section \<open>Containment check at creation\<close>

lemma create_task_collection_missing:
  assumes "tc_collection_id task_create = Some cid" and "cid \<noteq> 0"
    and "get_collection_by_id_and_user d cid user_id = Inr None"
  shows "create_task_for_user d user_id task_create =
           Inl (HTTPException 404 Collection_not_found)"
  using assms by (simp add: create_task_for_user_def and_then_def)

lemma create_task_collection_notes_only:
  assumes "tc_collection_id task_create = Some cid" and "cid \<noteq> 0"
    and "get_collection_by_id_and_user d cid user_id = Inr (Some c)"
    and "collection_type c = NOTES_ONLY"
  shows "create_task_for_user d user_id task_create =
           Inl (HTTPException 400 Task_into_notes_only)"
  using assms by (simp add: create_task_for_user_def and_then_def)

lemma create_note_collection_missing:
  assumes "nc_collection_id note_create = Some cid" and "cid \<noteq> 0"
    and "get_collection_by_id_and_user d cid user_id = Inr None"
  shows "create_note_for_user d user_id note_create =
           Inl (HTTPException 404 Collection_not_found)"
  using assms by (simp add: create_note_for_user_def and_then_def)

lemma create_note_collection_tasks_only:
  assumes "nc_collection_id note_create = Some cid" and "cid \<noteq> 0"
    and "get_collection_by_id_and_user d cid user_id = Inr (Some c)"
    and "collection_type c = TASKS_ONLY"
  shows "create_note_for_user d user_id note_create =
           Inl (HTTPException 400 Note_into_tasks_only)"
  using assms by (simp add: create_note_for_user_def and_then_def)

text \<open>
  C4 at the input \<open>collection_id = 0\<close>. User 1 owns no collection \<open>0\<close> (nor \<open>7\<close>, nor
  \<open>2\<close>, which is user 2's). Creating a task or a note in collection \<open>7\<close> or \<open>2\<close>
  raises the 404 error, as the claim says. Creating one in collection \<open>0\<close>, a value
  that is not null, raises nothing: the truthiness test skips the check and the object
  is stored with \<open>collection_id = 0\<close>.
\<close>

theorem create_with_collection_zero_unchecked:
  "get_collection_by_id_and_user example_db 0 1 = Inr None
   \<and> get_collection_by_id_and_user example_db 7 1 = Inr None
   \<and> get_collection_by_id_and_user example_db 2 1 = Inr None
   \<and> created_in task_collection_id
        (create_task_for_user example_db 1 (example_task_create (Some 7))) =
       Inl (HTTPException 404 Collection_not_found)
   \<and> created_in task_collection_id
        (create_task_for_user example_db 1 (example_task_create (Some 2))) =
       Inl (HTTPException 404 Collection_not_found)
   \<and> created_in task_collection_id
        (create_task_for_user example_db 1 (example_task_create (Some 0))) = Inr (Some 0)
   \<and> created_in note_collection_id
        (create_note_for_user example_db 1 (example_note_create (Some 7))) =
       Inl (HTTPException 404 Collection_not_found)
   \<and> created_in note_collection_id
        (create_note_for_user example_db 1 (example_note_create (Some 0))) = Inr (Some 0)"
  by code_simp

end
